theory Spec2Isabelle
  imports Complex_Main
begin

section \<open>Python values used by the signer\<close>

text \<open>
  \<^verbatim>\<open>bytes\<close> is a list of 8-bit characters. A Python \<^verbatim>\<open>str\<close> is kept as the list of the
  bytes of its UTF-8 encoding, so that \<^verbatim>\<open>s.encode("utf-8")\<close> is the identity and an empty
  \<^verbatim>\<open>str\<close> is the empty list. A parameter that may be \<^verbatim>\<open>None\<close> is an \<open>option\<close>.
\<close>

type_synonym bytes = "char list"
type_synonym str = "char list"

text \<open>The exceptions that can leave the modelled functions: those the code provokes itself
  and those raised inside the libraries it calls.\<close>

datatype error =
    IndexError
  | AttributeError
  | FileNotFoundError
  | PermissionError
  | ValueError
  | PdfReadError
  | SigningError

subsection \<open>Python floats\<close>

text \<open>
  A Python \<^verbatim>\<open>float\<close> is an IEEE 754 binary64 number: 53 significant bits, exponents from
  \<open>-1022\<close> to \<open>1023\<close>, subnormals with quantum \<open>2 powi (-1074)\<close>, two infinities and NaN.
  A finite float is kept as the rational it denotes (the two zeros are one value, as they
  are for \<^verbatim>\<open>==\<close>). Addition and subtraction compute the exact rational result and round
  it to the nearest float, ties to the even significand.
\<close>

datatype float64 = Finite rat | PInf | NInf | NaN

fun ilog2 :: "nat \<Rightarrow> nat" where
  "ilog2 n = (if n < 2 then 0 else Suc (ilog2 (n div 2)))"

declare ilog2.simps [simp del]

definition rat_exponent :: "rat \<Rightarrow> int" where
  "rat_exponent q =
     (let (a, b) = quotient_of \<bar>q\<bar>;
          e0 = int (ilog2 (nat a)) - int (ilog2 (nat b))
      in if \<bar>q\<bar> < 2 powi e0 then e0 - 1 else e0)"

definition round_half_even :: "rat \<Rightarrow> int" where
  "round_half_even r =
     (let f = \<lfloor>r\<rfloor>; d = r - of_int f
      in if d < 1 / 2 then f
         else if 1 / 2 < d then f + 1
         else if even f then f else f + 1)"

definition round_binary64 :: "rat \<Rightarrow> float64" where
  "round_binary64 q =
     (if q = 0 then Finite 0
      else let k = max (rat_exponent q) (- 1022) - 52;
               v = of_int (round_half_even (q / 2 powi k)) * 2 powi k
           in if 2 ^ 1024 \<le> v then PInf
              else if v \<le> - (2 ^ 1024) then NInf
              else Finite v)"

fun float_neg :: "float64 \<Rightarrow> float64" where
  "float_neg (Finite q) = Finite (- q)"
| "float_neg PInf = NInf"
| "float_neg NInf = PInf"
| "float_neg NaN = NaN"

fun float_add :: "float64 \<Rightarrow> float64 \<Rightarrow> float64" where
  "float_add (Finite p) (Finite q) = round_binary64 (p + q)"
| "float_add NaN b = NaN"
| "float_add a NaN = NaN"
| "float_add PInf NInf = NaN"
| "float_add NInf PInf = NaN"
| "float_add PInf b = PInf"
| "float_add NInf b = NInf"
| "float_add a PInf = PInf"
| "float_add a NInf = NInf"

definition float_sub :: "float64 \<Rightarrow> float64 \<Rightarrow> float64" where
  "float_sub a b = float_add a (float_neg b)"

text \<open>The rationals that are floats: those that rounding leaves alone.\<close>

definition is_binary64 :: "rat \<Rightarrow> bool" where
  "is_binary64 q = (round_binary64 q = Finite q)"

type_synonym box = "float64 \<times> float64 \<times> float64 \<times> float64"

subsection \<open>Sequences, dictionaries, the clock\<close>

text \<open>\<^verbatim>\<open>xs[i]\<close> on a sequence: a negative index counts from the end, an index outside the
  sequence raises \<^verbatim>\<open>IndexError\<close>.\<close>

definition getitem :: "'a list \<Rightarrow> int \<Rightarrow> error + 'a" where
  "getitem xs i =
     (if 0 \<le> i \<and> i < int (length xs) then Inr (xs ! nat i)
      else if i < 0 \<and> - int (length xs) \<le> i then Inr (xs ! nat (int (length xs) + i))
      else Inl IndexError)"

text \<open>The values stored in the signature dictionary handed to the signing library.\<close>

datatype pyval = PyInt int | PyStr str | PyBox box

type_synonym sigdict = "string \<rightharpoonup> pyval"

text \<open>\<^verbatim>\<open>datetime.now(timezone.utc)\<close>: the clock is an input. A reading of the clock is a
  \<^verbatim>\<open>datetime\<close>, whose fields lie in the ranges of \<open>valid_datetime\<close>; the year has four digits
  (before the year 1000 the width of \<^verbatim>\<open>%Y\<close> depends on the C library).\<close>

record datetime =
  dt_year :: nat
  dt_month :: nat
  dt_day :: nat
  dt_hour :: nat
  dt_minute :: nat
  dt_second :: nat

definition valid_datetime :: "datetime \<Rightarrow> bool" where
  "valid_datetime t =
     (1000 \<le> dt_year t \<and> dt_year t \<le> 9999 \<and> 1 \<le> dt_month t \<and> dt_month t \<le> 12 \<and>
      1 \<le> dt_day t \<and> dt_day t \<le> 31 \<and> dt_hour t < 24 \<and> dt_minute t < 60 \<and>
      dt_second t < 60)"

definition digit_char :: "nat \<Rightarrow> char" where
  "digit_char d = char_of (48 + d mod 10)"

text \<open>The \<open>w\<close> low-order decimal digits of \<open>n\<close>, zero padded: what \<^verbatim>\<open>%Y\<close> (width 4) and
  \<^verbatim>\<open>%m %d %H %M %S\<close> (width 2) print for the fields of a \<^verbatim>\<open>datetime\<close>.\<close>

fun zero_padded :: "nat \<Rightarrow> nat \<Rightarrow> string" where
  "zero_padded 0 n = []"
| "zero_padded (Suc w) n = zero_padded w (n div 10) @ [digit_char n]"

text \<open>\<^verbatim>\<open>t.strftime("D:%Y%m%d%H%M%S+00'00'")\<close>\<close>

definition strftime_pdf_date :: "datetime \<Rightarrow> str" where
  "strftime_pdf_date t =
     ''D:'' @ zero_padded 4 (dt_year t) @ zero_padded 2 (dt_month t) @
     zero_padded 2 (dt_day t) @ zero_padded 2 (dt_hour t) @ zero_padded 2 (dt_minute t) @
     zero_padded 2 (dt_second t) @ ''+00'' @ [CHR 0x27] @ ''00'' @ [CHR 0x27]"

section \<open>The collaborators: PDF reader, PKCS#12 decoder, CMS signer, clock, files\<close>

text \<open>
  The libraries the two entry points call are inputs of the model:
  \<^item> \<open>pdf_reader\<close>: \<^verbatim>\<open>PdfReader(...).pages\<close>, the pages of a document with the width and
    height of their media box as floats, or the reader's exception;
  \<^item> \<open>load_key_and_certificates\<close>: \<^verbatim>\<open>pkcs12.load_key_and_certificates(data, password)\<close>,
    whose password is \<^verbatim>\<open>None\<close> or bytes and whose third result may be \<^verbatim>\<open>None\<close>;
  \<^item> \<open>cms_sign\<close>: \<^verbatim>\<open>pdf.cms.sign(data, dct, key, cert, ca, algo)\<close>, the bytes of the
    incremental update, or the signer's exception;
  \<^item> \<open>utc_now\<close>: the clock.
\<close>

record page =
  mediabox_width :: float64
  mediabox_height :: float64

record ('key, 'cert) env =
  pdf_reader :: "bytes \<Rightarrow> error + page list"
  load_key_and_certificates ::
    "bytes \<Rightarrow> bytes option \<Rightarrow> error + ('key \<times> 'cert \<times> 'cert list option)"
  cms_sign :: "bytes \<Rightarrow> sigdict \<Rightarrow> 'key \<Rightarrow> 'cert \<Rightarrow> 'cert list \<Rightarrow> str \<Rightarrow> error + bytes"
  utc_now :: datetime

text \<open>The files \<^verbatim>\<open>sign_all.py\<close> reads and writes.\<close>

record filesystem =
  files :: "string \<rightharpoonup> bytes"
  writable :: "string \<Rightarrow> bool"

definition read_file :: "filesystem \<Rightarrow> string \<Rightarrow> error + bytes" where
  "read_file fs path =
     (case files fs path of None \<Rightarrow> Inl FileNotFoundError | Some data \<Rightarrow> Inr data)"

definition write_file :: "filesystem \<Rightarrow> string \<Rightarrow> bytes \<Rightarrow> error + filesystem" where
  "write_file fs path data =
     (if writable fs path then Inr (fs\<lparr>files := (files fs)(path \<mapsto> data)\<rparr>)
      else Inl PermissionError)"

section \<open>app.py\<close>

text \<open>\<^verbatim>\<open>ca_list or []\<close>\<close>

definition or_empty :: "'a list option \<Rightarrow> 'a list" where
  "or_empty xs = (case xs of None \<Rightarrow> [] | Some ys \<Rightarrow> ys)"

definition load_pkcs12_from_bytes ::
  "('key, 'cert) env \<Rightarrow> bytes \<Rightarrow> str option \<Rightarrow> error + ('key \<times> 'cert \<times> 'cert list)" where
  "load_pkcs12_from_bytes e p12_bytes password =
     (case load_key_and_certificates e p12_bytes
             (case password of
                None \<Rightarrow> None
              | Some pw \<Rightarrow> if pw \<noteq> [] then Some pw else None) of
        Inl err \<Rightarrow> Inl err
      | Inr (key, cert, ca_list) \<Rightarrow> Inr (key, cert, or_empty ca_list))"

text \<open>The default arguments. The \<^verbatim>\<open>o\<close> with an acute accent of the default reason is the two
  bytes \<open>0xC3 0xB3\<close> of its UTF-8 encoding.\<close>

definition default_reason :: str where
  "default_reason = ''Aprobaci'' @ [CHR 0xC3, CHR 0xB3] @ ''n de documento''"

definition default_location :: str where
  "default_location = ''Sabadell, ES''"

definition default_contact :: str where
  "default_contact = ''it@empresa.com''"

definition default_box :: box where
  "default_box = (Finite 36, Finite 36, Finite 196, Finite 120)"

definition signature_dict ::
  "datetime \<Rightarrow> bool \<Rightarrow> int \<Rightarrow> box \<Rightarrow> str \<Rightarrow> str \<Rightarrow> str \<Rightarrow> sigdict" where
  "signature_dict now visible page_index bx reason location contact =
     (let signing_date = strftime_pdf_date now;
          dct = [''sigflags'' \<mapsto> PyInt 3,
                 ''contact'' \<mapsto> PyStr contact,
                 ''location'' \<mapsto> PyStr location,
                 ''signingdate'' \<mapsto> PyStr signing_date,
                 ''reason'' \<mapsto> PyStr reason,
                 ''signature'' \<mapsto> PyStr ''FIRMA DIGITAL: ENZO GAROFALO LANZUISI'']
      in if visible
         then dct(''sigpage'' \<mapsto> PyInt page_index, ''signaturebox'' \<mapsto> PyBox bx)
         else dct)"

text \<open>\<^verbatim>\<open>get_page_size\<close> of \<^verbatim>\<open>app.py\<close>\<close>

definition app_get_page_size ::
  "('key, 'cert) env \<Rightarrow> bytes \<Rightarrow> int \<Rightarrow> error + (float64 \<times> float64)" where
  "app_get_page_size e pdf_bytes page_index =
     (case pdf_reader e pdf_bytes of
        Inl err \<Rightarrow> Inl err
      | Inr pages \<Rightarrow>
          (case getitem pages
                  (if page_index < 0 then int (length pages) - 1 else page_index) of
             Inl err \<Rightarrow> Inl err
           | Inr pg \<Rightarrow> Inr (mediabox_width pg, mediabox_height pg)))"

definition bottom_right_box ::
  "float64 \<Rightarrow> float64 \<Rightarrow> float64 \<Rightarrow> float64 \<Rightarrow> float64 \<Rightarrow> float64 \<Rightarrow> box" where
  "bottom_right_box width height box_w box_h margin_right margin_bottom =
     (let x2 = float_sub width margin_right;
          x1 = float_sub x2 box_w;
          y1 = margin_bottom;
          y2 = float_add y1 box_h
      in (x1, y1, x2, y2))"

definition sign_pdf_bytes ::
  "('key, 'cert) env \<Rightarrow> bytes \<Rightarrow> 'key \<Rightarrow> 'cert \<Rightarrow> 'cert list \<Rightarrow> bool \<Rightarrow> int \<Rightarrow> box option \<Rightarrow>
     str \<Rightarrow> str \<Rightarrow> str \<Rightarrow> error + bytes" where
  "sign_pdf_bytes e pdf_bytes key cert ca_list visible page_index br_box reason location contact =
     (case (if visible then
              (case (case br_box of
                       None \<Rightarrow>
                         (case app_get_page_size e pdf_bytes page_index of
                            Inl err \<Rightarrow> Inl err
                          | Inr (width, height) \<Rightarrow>
                              Inr (bottom_right_box width height
                                     (Finite 160) (Finite 84) (Finite 24) (Finite 24)))
                     | Some b \<Rightarrow> Inr b) of
                 Inl err \<Rightarrow> Inl err
               | Inr b \<Rightarrow>
                   Inr (signature_dict (utc_now e) True page_index b reason location contact))
            else Inr (signature_dict (utc_now e) False page_index default_box
                        reason location contact)) of
        Inl err \<Rightarrow> Inl err
      | Inr dct \<Rightarrow>
          (case cms_sign e pdf_bytes dct key cert ca_list ''sha256'' of
             Inl err \<Rightarrow> Inl err
           | Inr signed_append \<Rightarrow> Inr (pdf_bytes @ signed_append)))"

section \<open>sign\_all.py\<close>

text \<open>\<^verbatim>\<open>get_page_size\<close> of \<^verbatim>\<open>sign_all.py\<close>: the reader opens the file at the path.\<close>

definition sign_all_get_page_size ::
  "('key, 'cert) env \<Rightarrow> filesystem \<Rightarrow> string \<Rightarrow> int \<Rightarrow> error + (float64 \<times> float64)" where
  "sign_all_get_page_size e fs pdf_path page_index =
     (case read_file fs pdf_path of
        Inl err \<Rightarrow> Inl err
      | Inr data \<Rightarrow>
          (case pdf_reader e data of
             Inl err \<Rightarrow> Inl err
           | Inr pages \<Rightarrow>
               (case getitem pages
                       (if page_index < 0 then int (length pages) - 1 else page_index) of
                  Inl err \<Rightarrow> Inl err
                | Inr pg \<Rightarrow> Inr (mediabox_width pg, mediabox_height pg))))"

definition compute_bottom_right_box ::
  "float64 \<Rightarrow> float64 \<Rightarrow> float64 \<Rightarrow> float64 \<Rightarrow> float64 \<Rightarrow> float64 \<Rightarrow> box" where
  "compute_bottom_right_box width height box_w box_h margin_right margin_bottom =
     (let x2 = float_sub width margin_right;
          x1 = float_sub x2 box_w;
          y1 = margin_bottom;
          y2 = float_add y1 box_h
      in (x1, y1, x2, y2))"

text \<open>\<^verbatim>\<open>_load_pkcs12\<close>: the password is encoded whatever it is; \<^verbatim>\<open>None.encode\<close> raises
  \<^verbatim>\<open>AttributeError\<close>.\<close>

definition sign_all_load_pkcs12 ::
  "('key, 'cert) env \<Rightarrow> filesystem \<Rightarrow> string \<Rightarrow> str option \<Rightarrow>
     error + ('key \<times> 'cert \<times> 'cert list)" where
  "sign_all_load_pkcs12 e fs p12_path password =
     (case read_file fs p12_path of
        Inl err \<Rightarrow> Inl err
      | Inr p12_data \<Rightarrow>
          (case password of
             None \<Rightarrow> Inl AttributeError
           | Some pw \<Rightarrow>
               (case load_key_and_certificates e p12_data (Some pw) of
                  Inl err \<Rightarrow> Inl err
                | Inr (key, cert, additional_certs) \<Rightarrow>
                    Inr (key, cert, or_empty additional_certs))))"

text \<open>\<^verbatim>\<open>_signature_dict\<close>\<close>

definition sign_all_signature_dict ::
  "datetime \<Rightarrow> bool \<Rightarrow> int \<Rightarrow> box \<Rightarrow> str \<Rightarrow> str \<Rightarrow> str \<Rightarrow> sigdict" where
  "sign_all_signature_dict now visible page_index bx reason location contact =
     (let signing_date = strftime_pdf_date now;
          dct = [''sigflags'' \<mapsto> PyInt 3,
                 ''contact'' \<mapsto> PyStr contact,
                 ''location'' \<mapsto> PyStr location,
                 ''signingdate'' \<mapsto> PyStr signing_date,
                 ''reason'' \<mapsto> PyStr reason,
                 ''signature'' \<mapsto> PyStr ''Firma Digital: ENZO GAROFALO LANZUISI'']
      in if visible
         then dct(''sigpage'' \<mapsto> PyInt page_index, ''signaturebox'' \<mapsto> PyBox bx)
         else dct)"

text \<open>\<^verbatim>\<open>sign_pdf_file\<close> returns nothing; its effect is the file written at the output path.
  The model returns the file system after the call, or the exception raised.\<close>

definition sign_pdf_file ::
  "('key, 'cert) env \<Rightarrow> filesystem \<Rightarrow> string \<Rightarrow> string \<Rightarrow> string \<Rightarrow> str option \<Rightarrow> bool \<Rightarrow>
     int \<Rightarrow> box \<Rightarrow> error + filesystem" where
  "sign_pdf_file e fs input_path output_path p12_path p12_password visible page_index bx =
     (case read_file fs input_path of
        Inl err \<Rightarrow> Inl err
      | Inr pdf_bytes \<Rightarrow>
          (case sign_all_load_pkcs12 e fs p12_path p12_password of
             Inl err \<Rightarrow> Inl err
           | Inr (key, cert, ca) \<Rightarrow>
               (case (if visible then
                        (case sign_all_get_page_size e fs input_path page_index of
                           Inl err \<Rightarrow> Inl err
                         | Inr (width, height) \<Rightarrow>
                             Inr (compute_bottom_right_box width height
                                    (Finite 160) (Finite 84) (Finite 24) (Finite 24)))
                      else Inr bx) of
                  Inl err \<Rightarrow> Inl err
                | Inr bx' \<Rightarrow>
                    (case cms_sign e pdf_bytes
                            (sign_all_signature_dict (utc_now e) visible page_index bx'
                               default_reason default_location default_contact)
                            key cert ca ''sha256'' of
                       Inl err \<Rightarrow> Inl err
                     | Inr signed_bytes \<Rightarrow>
                         write_file fs output_path (pdf_bytes @ signed_bytes)))))"

section \<open>The PDF date format\<close>

text \<open>
  The format of the signing date as the specification writes it, \<^verbatim>\<open>D:YYYYMMDDHHmmSS+00'00'\<close>:
  the two characters \<^verbatim>\<open>D:\<close>, fourteen decimal digits and the fixed UTC offset. The fields are
  read back from the digits, year first.
\<close>

definition is_digit :: "char \<Rightarrow> bool" where
  "is_digit c = (48 \<le> (of_char c :: nat) \<and> (of_char c :: nat) \<le> 57)"

definition digit_value :: "char \<Rightarrow> nat" where
  "digit_value c = of_char c - 48"

definition read_decimal :: "string \<Rightarrow> nat" where
  "read_decimal s = foldl (\<lambda>acc c. 10 * acc + digit_value c) 0 s"

definition pdf_utc_date_format :: "str \<Rightarrow> bool" where
  "pdf_utc_date_format s =
     (length s = 23 \<and> take 2 s = ''D:'' \<and> list_all is_digit (take 14 (drop 2 s)) \<and>
      drop 16 s = ''+00'' @ [CHR 0x27] @ ''00'' @ [CHR 0x27])"

definition pdf_date_fields :: "str \<Rightarrow> datetime" where
  "pdf_date_fields s =
     \<lparr>dt_year = read_decimal (take 4 (drop 2 s)),
      dt_month = read_decimal (take 2 (drop 6 s)),
      dt_day = read_decimal (take 2 (drop 8 s)),
      dt_hour = read_decimal (take 2 (drop 10 s)),
      dt_minute = read_decimal (take 2 (drop 12 s)),
      dt_second = read_decimal (take 2 (drop 14 s))\<rparr>"

section \<open>Sample inputs\<close>

text \<open>A clock reading, a two-page document (US Letter, then A4), collaborators that always
  succeed, and a file system holding the document and a certificate.\<close>

definition sample_now :: datetime where
  "sample_now = \<lparr>dt_year = 2025, dt_month = 3, dt_day = 9, dt_hour = 14, dt_minute = 5, dt_second = 0\<rparr>"

definition sample_page_a :: page where
  "sample_page_a = \<lparr>mediabox_width = Finite 612, mediabox_height = Finite 792\<rparr>"

definition sample_page_b :: page where
  "sample_page_b = \<lparr>mediabox_width = Finite 595, mediabox_height = Finite 842\<rparr>"

definition sample_env :: "(nat, nat) env" where
  "sample_env =
     \<lparr>pdf_reader = (\<lambda>data. if data = [] then Inr [] else Inr [sample_page_a, sample_page_b]),
      load_key_and_certificates = (\<lambda>data password. Inr (1, 2, None)),
      cms_sign = (\<lambda>data dct key cert ca algo. Inr ''%%EOF''),
      utc_now = sample_now\<rparr>"

definition sample_fs :: filesystem where
  "sample_fs =
     \<lparr>files = [''in.pdf'' \<mapsto> ''%PDF'', ''cert.p12'' \<mapsto> ''p12''],
      writable = (\<lambda>path. True)\<rparr>"

text \<open>A decoder that hands back, in place of the key, the password it was called with.\<close>

definition password_probe_env :: "(bytes option, unit) env" where
  "password_probe_env =
     \<lparr>pdf_reader = (\<lambda>data. Inr []),
      load_key_and_certificates = (\<lambda>data password. Inr (password, (), None)),
      cms_sign = (\<lambda>data dct key cert ca algo. Inr []),
      utc_now = sample_now\<rparr>"

text \<open>A signer that accepts one signature box only: the bottom-right box of the A4 page of the
  sample with the default layout, \<open>(411, 24, 571, 108)\<close>.\<close>

definition box_probe_env :: "(nat, nat) env" where
  "box_probe_env =
     \<lparr>pdf_reader = (\<lambda>data. Inr [sample_page_a, sample_page_b]),
      load_key_and_certificates = (\<lambda>data password. Inr (1, 2, None)),
      cms_sign = (\<lambda>data dct key cert ca algo.
         if dct ''signaturebox'' = Some (PyBox (Finite 411, Finite 24, Finite 571, Finite 108))
         then Inr ''%%EOF'' else Inl SigningError),
      utc_now = sample_now\<rparr>"

section \<open>Rounding to binary64\<close>

text \<open>The exponent found by \<open>rat_exponent\<close> is the binary exponent of its argument, and a
  rounding is settled by the exponent and the position of the scaled argument between two
  integers.\<close>

lemma ilog2_bounds:
  "0 < n \<Longrightarrow> 2 ^ ilog2 n \<le> n \<and> n < 2 ^ Suc (ilog2 n)"
proof (induction n rule: ilog2.induct)
  case (1 n)
  show ?case
  proof (cases "n < 2")
    case True
    with "1.prems" have "n = 1" by simp
    then show ?thesis by (simp add: ilog2.simps)
  next
    case False
    then have pos: "0 < n div 2" by simp
    from "1.IH" [OF False pos]
    have lo: "2 ^ ilog2 (n div 2) \<le> n div 2" and hi: "n div 2 < 2 ^ Suc (ilog2 (n div 2))"
      by simp_all
    from False have eq: "ilog2 n = Suc (ilog2 (n div 2))"
      by (subst ilog2.simps) simp
    from lo have "2 * 2 ^ ilog2 (n div 2) \<le> n" by arith
    moreover from hi have "n < 2 * 2 ^ Suc (ilog2 (n div 2))" by arith
    ultimately show ?thesis by (simp add: eq)
  qed
qed

lemma exponent_unique:
  fixes x :: rat
  assumes "2 powi e \<le> x" "x < 2 powi (e + 1)" "2 powi r \<le> x" "x < 2 powi (r + 1)"
  shows "e = r"
proof -
  from assms have a: "(2::rat) powi e < 2 powi (r + 1)" and b: "(2::rat) powi r < 2 powi (e + 1)"
    by simp_all
  have "e < r + 1"
  proof (rule ccontr)
    assume "\<not> e < r + 1"
    then have "(2::rat) powi (r + 1) \<le> 2 powi e" by (intro power_int_increasing) simp_all
    with a show False by simp
  qed
  moreover have "r < e + 1"
  proof (rule ccontr)
    assume "\<not> r < e + 1"
    then have "(2::rat) powi (e + 1) \<le> 2 powi r" by (intro power_int_increasing) simp_all
    with b show False by simp
  qed
  ultimately show ?thesis by simp
qed

lemma rat_exponent_bounds:
  assumes "q \<noteq> 0"
  shows "2 powi rat_exponent q \<le> \<bar>q\<bar> \<and> \<bar>q\<bar> < 2 powi (rat_exponent q + 1)"
proof -
  obtain a b where ab: "quotient_of \<bar>q\<bar> = (a, b)" by (cases "quotient_of \<bar>q\<bar>")
  then have bpos: "0 < b" by (rule quotient_of_denom_pos)
  from ab have qeq: "\<bar>q\<bar> = of_int a / of_int b" by (rule quotient_of_div)
  from assms have "0 < \<bar>q\<bar>" by simp
  with qeq bpos have apos: "0 < a" by (simp add: zero_less_divide_iff)
  define la where "la = ilog2 (nat a)"
  define lb where "lb = ilog2 (nat b)"
  from apos ilog2_bounds [of "nat a"]
  have "2 ^ la \<le> nat a" "nat a < 2 ^ Suc la" by (simp_all add: la_def)
  with apos have a_lo: "(2::rat) ^ la \<le> of_int a" and a_hi: "of_int a < (2::rat) ^ Suc la"
    by (metis of_nat_le_iff of_nat_numeral of_nat_power of_nat_nat less_imp_le of_int_of_nat_eq,
        metis of_nat_less_iff of_nat_numeral of_nat_power of_nat_nat less_imp_le of_int_of_nat_eq)
  from bpos ilog2_bounds [of "nat b"]
  have "2 ^ lb \<le> nat b" "nat b < 2 ^ Suc lb" by (simp_all add: lb_def)
  with bpos have b_lo: "(2::rat) ^ lb \<le> of_int b" and b_hi: "of_int b < (2::rat) ^ Suc lb"
    by (metis of_nat_le_iff of_nat_numeral of_nat_power of_nat_nat less_imp_le of_int_of_nat_eq,
        metis of_nat_less_iff of_nat_numeral of_nat_power of_nat_nat less_imp_le of_int_of_nat_eq)
  define e0 where "e0 = int la - int lb"
  have bq: "(0::rat) < of_int b" using bpos by simp
  have p1: "(2::rat) powi (e0 + 1) = 2 ^ Suc la / 2 ^ lb"
    by (simp add: e0_def power_int_diff power_int_add)
  have p2: "(2::rat) powi (e0 - 1) = 2 ^ la / 2 ^ Suc lb"
    by (simp add: e0_def power_int_diff)
  have hi: "\<bar>q\<bar> < 2 powi (e0 + 1)"
  proof -
    have "of_int a / of_int b < (2::rat) ^ Suc la / of_int b"
      using a_hi bq by (simp add: divide_strict_right_mono)
    also have "\<dots> \<le> 2 ^ Suc la / 2 ^ lb"
      using b_lo bq by (intro divide_left_mono mult_pos_pos) simp_all
    finally show ?thesis by (simp only: qeq p1)
  qed
  have lo: "2 powi (e0 - 1) < \<bar>q\<bar>"
  proof -
    have "(2::rat) ^ la / 2 ^ Suc lb < 2 ^ la / of_int b"
      using b_hi bq by (intro divide_strict_left_mono) simp_all
    also have "\<dots> \<le> of_int a / of_int b"
      using a_lo bq by (simp add: divide_right_mono)
    finally show ?thesis by (simp only: qeq p2)
  qed
  have re: "rat_exponent q = (if \<bar>q\<bar> < 2 powi e0 then e0 - 1 else e0)"
    by (simp add: rat_exponent_def ab la_def lb_def e0_def)
  show ?thesis
  proof (cases "\<bar>q\<bar> < 2 powi e0")
    case True
    with lo re show ?thesis by simp
  next
    case False
    with hi re show ?thesis by simp
  qed
qed

lemma rat_exponent_eq:
  assumes "2 powi e \<le> \<bar>q\<bar>" "\<bar>q\<bar> < 2 powi (e + 1)"
  shows "rat_exponent q = e"
proof -
  have "(0::rat) < 2 powi e" by simp
  then have "0 < \<bar>q\<bar>" using assms(1) by (rule less_le_trans)
  then have "q \<noteq> 0" by simp
  from rat_exponent_bounds [OF this] assms show ?thesis
    by (intro exponent_unique [of "rat_exponent q" "\<bar>q\<bar>" e]) simp_all
qed

lemma round_half_even_of_int: "round_half_even (of_int n) = n"
  by (simp add: round_half_even_def)

lemma round_half_even_down:
  assumes "of_int f \<le> r" "r < of_int f + 1 / 2"
  shows "round_half_even r = f"
proof -
  from assms have "\<lfloor>r\<rfloor> = f" by (intro floor_unique) simp_all
  with assms show ?thesis by (simp add: round_half_even_def)
qed

lemma round_half_even_up:
  assumes "of_int f + 1 / 2 < r" "r < of_int f + 1"
  shows "round_half_even r = f + 1"
proof -
  from assms have "\<lfloor>r\<rfloor> = f" by (intro floor_unique) simp_all
  with assms show ?thesis by (simp add: round_half_even_def)
qed

lemma round_half_even_tie:
  assumes "r = of_int f + 1 / 2"
  shows "round_half_even r = (if even f then f else f + 1)"
proof -
  from assms have "\<lfloor>r\<rfloor> = f" by (intro floor_unique) simp_all
  with assms show ?thesis by (simp add: round_half_even_def)
qed

lemma round_binary64_normal:
  assumes "2 powi e \<le> \<bar>q\<bar>" "\<bar>q\<bar> < 2 powi (e + 1)" "- 1022 \<le> e"
    and "round_half_even (q / 2 powi (e - 52)) = m"
    and "\<bar>of_int m * 2 powi (e - 52)\<bar> < (2::rat) ^ 1024"
  shows "round_binary64 q = Finite (of_int m * 2 powi (e - 52))"
proof -
  have "(0::rat) < 2 powi e" by simp
  then have "0 < \<bar>q\<bar>" using assms(1) by (rule less_le_trans)
  then have nz: "q \<noteq> 0" by simp
  have ex: "rat_exponent q = e" using assms(1,2) by (rule rat_exponent_eq)
  from assms(3) have mx: "max e (- 1022) = e" by simp
  from assms(5) have "\<not> (2::rat) ^ 1024 \<le> of_int m * 2 powi (e - 52)"
    and "\<not> of_int m * 2 powi (e - 52) \<le> - ((2::rat) ^ 1024)"
    by (simp_all add: abs_less_iff)
  then show ?thesis
    unfolding round_binary64_def Let_def ex mx assms(4) using nz by simp
qed

lemma round_binary64_exact:
  assumes "2 powi e \<le> \<bar>q\<bar>" "\<bar>q\<bar> < 2 powi (e + 1)" "- 1022 \<le> e"
    and "q = of_int m * 2 powi (e - 52)"
    and "\<bar>q\<bar> < (2::rat) ^ 1024"
  shows "round_binary64 q = Finite q"
proof -
  have "q / 2 powi (e - 52) = of_int m" using assms(4) by simp
  then have "round_half_even (q / 2 powi (e - 52)) = m"
    by (simp add: round_half_even_of_int)
  from round_binary64_normal [OF assms(1-3) this] assms(4,5) show ?thesis by simp
qed

lemma round_binary64_tie:
  assumes "2 powi e \<le> \<bar>q\<bar>" "\<bar>q\<bar> < 2 powi (e + 1)" "- 1022 \<le> e"
    and "q = (of_int f + 1 / 2) * 2 powi (e - 52)"
    and "m = (if even f then f else f + 1)"
    and "\<bar>of_int m * 2 powi (e - 52)\<bar> < (2::rat) ^ 1024"
  shows "round_binary64 q = Finite (of_int m * 2 powi (e - 52))"
proof -
  have "q / 2 powi (e - 52) = of_int f + 1 / 2" using assms(4) by simp
  then have "round_half_even (q / 2 powi (e - 52)) = m"
    using assms(5) by (simp add: round_half_even_tie)
  from round_binary64_normal [OF assms(1-3) this assms(6)] show ?thesis .
qed

lemma float_sub_finite: "float_sub (Finite a) (Finite b) = round_binary64 (a - b)"
  by (simp add: float_sub_def)

lemma round_588: "round_binary64 588 = Finite 588"
  by (rule round_binary64_exact [where e = 9 and m = "588 * 2 ^ 43"]) simp_all

lemma round_428: "round_binary64 428 = Finite 428"
  by (rule round_binary64_exact [where e = 8 and m = "428 * 2 ^ 44"]) simp_all

lemma round_108: "round_binary64 108 = Finite 108"
  by (rule round_binary64_exact [where e = 6 and m = "108 * 2 ^ 46"]) simp_all

lemma round_160: "round_binary64 160 = Finite 160"
  by (rule round_binary64_exact [where e = 7 and m = "160 * 2 ^ 45"]) simp_all

lemma round_84: "round_binary64 84 = Finite 84"
  by (rule round_binary64_exact [where e = 6 and m = "84 * 2 ^ 46"]) simp_all

lemma round_160_1: "round_binary64 (5633017971422003 / 2 ^ 45) = Finite (5633017971422003 / 2 ^ 45)"
  by (rule round_binary64_exact [where e = 7 and m = 5633017971422003]) simp_all

lemma round_427_9:
  "round_binary64 (588 - 5633017971422003 / 2 ^ 45) = Finite (3763848204202803 / 2 ^ 43)"
proof -
  have "round_binary64 (588 - 5633017971422003 / 2 ^ 45) =
          Finite (of_int 7527696408405606 * 2 powi (8 - 52))"
    by (rule round_binary64_tie [where f = 7527696408405606]) simp_all
  then show ?thesis by simp
qed

lemma round_160_1_back:
  "round_binary64 (588 - 3763848204202803 / 2 ^ 43) = Finite (1408254492855501 / 2 ^ 43)"
proof -
  have "round_binary64 (588 - 3763848204202803 / 2 ^ 43) =
          Finite (588 - 3763848204202803 / 2 ^ 43)"
    by (rule round_binary64_exact [where e = 7 and m = "1408254492855501 * 4"]) simp_all
  then show ?thesis by simp
qed

section \<open>The box calculators\<close>

text \<open>
  Claim C10. The box calculator of \<^verbatim>\<open>app.py\<close> and the one of \<^verbatim>\<open>sign_all.py\<close> return the
  same rectangle on every six arguments.
\<close>

theorem box_calculators_agree:
  "bottom_right_box width height box_w box_h margin_right margin_bottom =
   compute_bottom_right_box width height box_w box_h margin_right margin_bottom"
  by (simp add: bottom_right_box_def compute_bottom_right_box_def)

text \<open>
  Claim C3, as amended. Both calculators return exactly \<open>x2 = width - margin_right\<close>,
  \<open>x1 = x2 - box_w\<close>, \<open>y1 = margin_bottom\<close>, \<open>y2 = y1 + box_h\<close> in float arithmetic, a function of
  the arguments alone and without clamping. When the subtraction giving \<open>x1\<close> is exact (not
  rounded) then \<open>x2 - x1 = box_w\<close>, and when the addition giving \<open>y2\<close> is exact then
  \<open>y2 - y1 = box_h\<close>.
\<close>

theorem box_calculator_equations:
  "bottom_right_box width height box_w box_h margin_right margin_bottom =
     (float_sub (float_sub width margin_right) box_w, margin_bottom,
      float_sub width margin_right, float_add margin_bottom box_h) \<and>
   compute_bottom_right_box width height box_w box_h margin_right margin_bottom =
     (float_sub (float_sub width margin_right) box_w, margin_bottom,
      float_sub width margin_right, float_add margin_bottom box_h) \<and>
   (float_sub width margin_right = Finite x2 \<and>
    float_sub (Finite x2) (Finite bw) = Finite (x2 - bw) \<and> is_binary64 bw \<longrightarrow>
      bottom_right_box width height (Finite bw) box_h margin_right margin_bottom =
        (Finite (x2 - bw), margin_bottom, Finite x2, float_add margin_bottom box_h) \<and>
      float_sub (Finite x2) (Finite (x2 - bw)) = Finite bw) \<and>
   (float_add (Finite y1) (Finite bh) = Finite (y1 + bh) \<and> is_binary64 bh \<longrightarrow>
      bottom_right_box width height box_w (Finite bh) margin_right (Finite y1) =
        (float_sub (float_sub width margin_right) box_w, Finite y1,
         float_sub width margin_right, Finite (y1 + bh)) \<and>
      float_sub (Finite (y1 + bh)) (Finite y1) = Finite bh)"
  by (simp add: bottom_right_box_def compute_bottom_right_box_def float_sub_finite
        is_binary64_def Let_def)

text \<open>The scenario of a 612 by 792 page with the default layout: the box is
  \<open>(428, 24, 588, 108)\<close>, its width 160 and its height 84.\<close>

theorem box_calculator_equations_witness:
  "float_sub (Finite 612) (Finite 24) = Finite 588 \<and>
   float_sub (Finite 588) (Finite 160) = Finite (588 - 160) \<and> is_binary64 160 \<and>
   float_add (Finite 24) (Finite 84) = Finite (24 + 84) \<and> is_binary64 84 \<and>
   bottom_right_box (Finite 612) (Finite 792) (Finite 160) (Finite 84) (Finite 24) (Finite 24) =
     (Finite 428, Finite 24, Finite 588, Finite 108) \<and>
   float_sub (Finite 588) (Finite 428) = Finite 160 \<and>
   float_sub (Finite 108) (Finite 24) = Finite 84"
proof -
  have a: "float_sub (Finite 612) (Finite 24) = Finite 588"
    by (simp add: float_sub_finite round_588)
  have b: "float_sub (Finite 588) (Finite 160) = Finite (588 - 160)"
    by (simp add: float_sub_finite round_428)
  have c: "is_binary64 160" by (simp add: is_binary64_def round_160)
  have d: "float_add (Finite 24) (Finite 84) = Finite (24 + 84)"
    by (simp add: round_108)
  have e: "is_binary64 84" by (simp add: is_binary64_def round_84)
  from a b c d e
    box_calculator_equations [of "Finite 612" "Finite 792" "Finite 160" "Finite 84" "Finite 24"
      "Finite 24" 588 160 24 84]
  show ?thesis by simp
qed

text \<open>
  Claim C3 as stated fails: on a 612 point wide page with a right margin of 24 and a box width
  of 160.1 (the float \<open>5633017971422003 / 2 ^ 45\<close>), \<open>x1\<close> is rounded to 427.9 and \<open>x2 - x1\<close> is
  160.10000000000002 (the float \<open>1408254492855501 / 2 ^ 43\<close>), not the box width.
\<close>

theorem box_width_lost_to_rounding:
  "is_binary64 (5633017971422003 / 2 ^ 45) \<and>
   bottom_right_box (Finite 612) (Finite 792) (Finite (5633017971422003 / 2 ^ 45)) (Finite 84)
     (Finite 24) (Finite 24) =
     (Finite (3763848204202803 / 2 ^ 43), Finite 24, Finite 588, Finite 108) \<and>
   float_sub (Finite 588) (Finite (3763848204202803 / 2 ^ 43)) =
     Finite (1408254492855501 / 2 ^ 43) \<and>
   Finite (1408254492855501 / 2 ^ 43) \<noteq> Finite (5633017971422003 / 2 ^ 45)"
  by (simp add: is_binary64_def bottom_right_box_def float_sub_finite round_160_1 [simplified] round_588
        round_427_9 [simplified] round_160_1_back [simplified] round_108)

section \<open>The signature dictionary\<close>

text \<open>
  Claim C5. With \<open>visible\<close> false the dictionary built by either entry point has no
  \<^verbatim>\<open>sigpage\<close> entry and no \<^verbatim>\<open>signaturebox\<close> entry, whatever page index and box are passed.
\<close>

theorem invisible_dict_has_no_page_no_box:
  "signature_dict now False page_index bx reason location contact ''sigpage'' = None \<and>
   signature_dict now False page_index bx reason location contact ''signaturebox'' = None \<and>
   sign_all_signature_dict now False page_index bx reason location contact ''sigpage'' = None \<and>
   sign_all_signature_dict now False page_index bx reason location contact ''signaturebox'' = None"
  by (simp add: signature_dict_def sign_all_signature_dict_def)

text \<open>
  Claim C4, as amended. With \<open>visible\<close> true neither builder validates anything: for every
  page index and every box, well formed or not, it returns a dictionary whose \<^verbatim>\<open>sigpage\<close> is
  the page index given and whose \<^verbatim>\<open>signaturebox\<close> is the box given.
\<close>

theorem visible_dict_keeps_any_box:
  "signature_dict now True page_index bx reason location contact ''sigpage'' = Some (PyInt page_index) \<and>
   signature_dict now True page_index bx reason location contact ''signaturebox'' = Some (PyBox bx) \<and>
   sign_all_signature_dict now True page_index bx reason location contact ''sigpage'' = Some (PyInt page_index) \<and>
   sign_all_signature_dict now True page_index bx reason location contact ''signaturebox'' = Some (PyBox bx)"
  by (simp add: signature_dict_def sign_all_signature_dict_def)

text \<open>
  Claim C4 as stated fails: the box \<open>(10, 10, 5, 5)\<close> has \<open>x1 \<ge> x2\<close> and \<open>y1 \<ge> y2\<close>, and
  both builders return a dictionary holding it.
\<close>

theorem ill_formed_box_is_accepted:
  "signature_dict sample_now True (- 1) (Finite 10, Finite 10, Finite 5, Finite 5)
     default_reason default_location default_contact ''signaturebox'' =
     Some (PyBox (Finite 10, Finite 10, Finite 5, Finite 5)) \<and>
   sign_all_signature_dict sample_now True (- 1) (Finite 10, Finite 10, Finite 5, Finite 5)
     default_reason default_location default_contact ''signaturebox'' =
     Some (PyBox (Finite 10, Finite 10, Finite 5, Finite 5)) \<and>
   \<not> ((10::rat) < 5)"
  by (simp add: signature_dict_def sign_all_signature_dict_def)

lemma length_zero_padded: "length (zero_padded w n) = w"
  by (induction w n rule: zero_padded.induct) simp_all

lemma is_digit_digit_char: "is_digit (digit_char d)"
  by (simp add: is_digit_def digit_char_def)

lemma digit_value_digit_char: "digit_value (digit_char d) = d mod 10"
  by (simp add: digit_value_def digit_char_def)

lemma digits_zero_padded: "list_all is_digit (zero_padded w n)"
  by (induction w n rule: zero_padded.induct) (simp_all add: is_digit_digit_char)

lemma read_decimal_snoc:
  "read_decimal (s @ [c]) = 10 * read_decimal s + digit_value c"
  by (simp add: read_decimal_def)

lemma read_decimal_zero_padded: "read_decimal (zero_padded w n) = n mod 10 ^ w"
proof (induction w n rule: zero_padded.induct)
  case (1 n)
  show ?case by (simp add: read_decimal_def)
next
  case (2 w n)
  have "n mod (10 * 10 ^ w) = 10 * (n div 10 mod 10 ^ w) + n mod 10"
    by (rule mod_mult2_eq)
  with 2 show ?case
    by (simp add: read_decimal_snoc digit_value_digit_char)
qed

lemma strftime_format: "pdf_utc_date_format (strftime_pdf_date t)"
  by (simp add: pdf_utc_date_format_def strftime_pdf_date_def length_zero_padded
        digits_zero_padded)

lemma strftime_fields:
  assumes "valid_datetime t"
  shows "pdf_date_fields (strftime_pdf_date t) = t"
  using assms
  by (simp add: pdf_date_fields_def strftime_pdf_date_def length_zero_padded
        read_decimal_zero_padded valid_datetime_def)

text \<open>
  Claim C6. Whatever \<open>visible\<close> is, the dictionary built by either entry point has
  \<^verbatim>\<open>sigflags\<close> 3, a \<^verbatim>\<open>signingdate\<close> that is the clock reading printed in the format
  \<^verbatim>\<open>D:YYYYMMDDHHmmSS+00'00'\<close> (reading the digits back gives the clock reading), and a
  \<^verbatim>\<open>signature\<close> entry naming the signer.
\<close>

theorem signature_dict_fixed_entries:
  assumes "valid_datetime now"
  shows "signature_dict now visible page_index bx reason location contact ''sigflags'' =
           Some (PyInt 3) \<and>
         signature_dict now visible page_index bx reason location contact ''signingdate'' =
           Some (PyStr (strftime_pdf_date now)) \<and>
         signature_dict now visible page_index bx reason location contact ''signature'' =
           Some (PyStr ''FIRMA DIGITAL: ENZO GAROFALO LANZUISI'') \<and>
         sign_all_signature_dict now visible page_index bx reason location contact ''sigflags'' =
           Some (PyInt 3) \<and>
         sign_all_signature_dict now visible page_index bx reason location contact
           ''signingdate'' = Some (PyStr (strftime_pdf_date now)) \<and>
         sign_all_signature_dict now visible page_index bx reason location contact ''signature'' =
           Some (PyStr ''Firma Digital: ENZO GAROFALO LANZUISI'') \<and>
         pdf_utc_date_format (strftime_pdf_date now) \<and>
         pdf_date_fields (strftime_pdf_date now) = now"
  using assms
  by (simp add: signature_dict_def sign_all_signature_dict_def strftime_format strftime_fields
        Let_def)

lemma sample_now_valid: "valid_datetime sample_now"
  by (simp add: valid_datetime_def sample_now_def)

lemma sample_now_string:
  "strftime_pdf_date sample_now = ''D:20250309140500+00'' @ [CHR 0x27] @ ''00'' @ [CHR 0x27]"
  by code_simp

text \<open>At 2025-03-09 14:05:00 UTC the signing date is \<^verbatim>\<open>D:20250309140500+00'00'\<close>.\<close>

theorem signature_dict_fixed_entries_witness:
  "valid_datetime sample_now \<and>
   signature_dict sample_now True (- 1) default_box default_reason default_location
     default_contact ''sigflags'' = Some (PyInt 3) \<and>
   signature_dict sample_now True (- 1) default_box default_reason default_location
     default_contact ''signingdate'' =
     Some (PyStr (''D:20250309140500+00'' @ [CHR 0x27] @ ''00'' @ [CHR 0x27])) \<and>
   sign_all_signature_dict sample_now False (- 1) default_box default_reason default_location
     default_contact ''signature'' = Some (PyStr ''Firma Digital: ENZO GAROFALO LANZUISI'') \<and>
   pdf_utc_date_format (''D:20250309140500+00'' @ [CHR 0x27] @ ''00'' @ [CHR 0x27]) \<and>
   pdf_date_fields (''D:20250309140500+00'' @ [CHR 0x27] @ ''00'' @ [CHR 0x27]) = sample_now"
  using sample_now_valid
    signature_dict_fixed_entries [OF sample_now_valid, of True "- 1" default_box default_reason
      default_location default_contact]
    signature_dict_fixed_entries [OF sample_now_valid, of False "- 1" default_box default_reason
      default_location default_contact]
  by (simp add: sample_now_string)

section \<open>Signing\<close>

lemma round_571: "round_binary64 571 = Finite 571"
  by (rule round_binary64_exact [where e = 9 and m = "571 * 2 ^ 43"]) simp_all

lemma round_411: "round_binary64 411 = Finite 411"
  by (rule round_binary64_exact [where e = 8 and m = "411 * 2 ^ 44"]) simp_all

lemma sample_a4_box:
  "compute_bottom_right_box (Finite 595) (Finite 842) (Finite 160) (Finite 84) (Finite 24)
     (Finite 24) = (Finite 411, Finite 24, Finite 571, Finite 108)"
  by (simp add: compute_bottom_right_box_def float_sub_finite round_571 round_411 round_108)

text \<open>
  Claim C8. With \<open>visible\<close> true, \<^verbatim>\<open>sign_pdf_file\<close> does the same for any two values of its box
  argument, everything else being equal: the box is recomputed. Once the input file, the
  credentials and the page size have been read, the box handed to the CMS signer, as the
  \<^verbatim>\<open>signaturebox\<close> entry of the dictionary, is the bottom-right box of that page size with
  \<open>box_w = 160\<close>, \<open>box_h = 84\<close>, \<open>margin_right = 24\<close>, \<open>margin_bottom = 24\<close>, and the file written
  is the input followed by what the signer returns for that dictionary.
\<close>

theorem sign_pdf_file_visible_ignores_box:
  "sign_pdf_file e fs input_path output_path p12_path p12_password True page_index b1 =
   sign_pdf_file e fs input_path output_path p12_path p12_password True page_index b2 \<and>
   (read_file fs input_path = Inr pdf_bytes \<and>
    sign_all_load_pkcs12 e fs p12_path p12_password = Inr (key, cert, ca) \<and>
    sign_all_get_page_size e fs input_path page_index = Inr (width, height) \<longrightarrow>
      sign_pdf_file e fs input_path output_path p12_path p12_password True page_index b1 =
        (case cms_sign e pdf_bytes
                (sign_all_signature_dict (utc_now e) True page_index
                   (compute_bottom_right_box width height
                      (Finite 160) (Finite 84) (Finite 24) (Finite 24))
                   default_reason default_location default_contact)
                key cert ca ''sha256'' of
           Inl err \<Rightarrow> Inl err
         | Inr signed_bytes \<Rightarrow> write_file fs output_path (pdf_bytes @ signed_bytes)) \<and>
      sign_all_signature_dict (utc_now e) True page_index
        (compute_bottom_right_box width height (Finite 160) (Finite 84) (Finite 24) (Finite 24))
        default_reason default_location default_contact ''signaturebox'' =
        Some (PyBox (compute_bottom_right_box width height
                       (Finite 160) (Finite 84) (Finite 24) (Finite 24))))"
  by (simp add: sign_pdf_file_def sign_all_signature_dict_def)

lemma probe_read_file: "read_file sample_fs ''in.pdf'' = Inr ''%PDF''"
  by (simp add: sample_fs_def read_file_def)

lemma probe_load_pkcs12:
  "sign_all_load_pkcs12 box_probe_env sample_fs ''cert.p12'' (Some ''pw'') = Inr (1, 2, [])"
  by (simp add: sign_all_load_pkcs12_def box_probe_env_def sample_fs_def read_file_def
        or_empty_def)

lemma probe_page_size:
  "sign_all_get_page_size box_probe_env sample_fs ''in.pdf'' (- 1) =
     Inr (Finite 595, Finite 842)"
  by (simp add: sign_all_get_page_size_def box_probe_env_def sample_fs_def read_file_def
        getitem_def sample_page_b_def)

lemma probe_signer_accepts:
  "cms_sign box_probe_env ''%PDF''
     (sign_all_signature_dict (utc_now box_probe_env) True (- 1)
        (Finite 411, Finite 24, Finite 571, Finite 108)
        default_reason default_location default_contact) 1 2 [] ''sha256'' = Inr ''%%EOF''"
  by (simp add: box_probe_env_def sign_all_signature_dict_def)

lemma probe_write:
  "write_file sample_fs ''out.pdf'' ''%PDF%%EOF'' =
     Inr (sample_fs\<lparr>files := (files sample_fs)(''out.pdf'' \<mapsto> ''%PDF%%EOF'')\<rparr>)"
  by (simp add: write_file_def sample_fs_def)

text \<open>With a signer that refuses every box but \<open>(411, 24, 571, 108)\<close>, signing the sample
  visibly succeeds whether the caller passes the default box or a box of zeros.\<close>

theorem sign_pdf_file_visible_ignores_box_witness:
  "read_file sample_fs ''in.pdf'' = Inr ''%PDF'' \<and>
   sign_all_load_pkcs12 box_probe_env sample_fs ''cert.p12'' (Some ''pw'') = Inr (1, 2, []) \<and>
   sign_all_get_page_size box_probe_env sample_fs ''in.pdf'' (- 1) =
     Inr (Finite 595, Finite 842) \<and>
   compute_bottom_right_box (Finite 595) (Finite 842) (Finite 160) (Finite 84) (Finite 24)
     (Finite 24) = (Finite 411, Finite 24, Finite 571, Finite 108) \<and>
   sign_pdf_file box_probe_env sample_fs ''in.pdf'' ''out.pdf'' ''cert.p12'' (Some ''pw'') True
     (- 1) default_box =
     Inr (sample_fs\<lparr>files := (files sample_fs)(''out.pdf'' \<mapsto> ''%PDF%%EOF'')\<rparr>) \<and>
   sign_pdf_file box_probe_env sample_fs ''in.pdf'' ''out.pdf'' ''cert.p12'' (Some ''pw'') True
     (- 1) (Finite 0, Finite 0, Finite 0, Finite 0) =
     Inr (sample_fs\<lparr>files := (files sample_fs)(''out.pdf'' \<mapsto> ''%PDF%%EOF'')\<rparr>)"
proof -
  note t = sign_pdf_file_visible_ignores_box [of box_probe_env sample_fs "''in.pdf''"
      "''out.pdf''" "''cert.p12''" "Some ''pw''" "- 1" default_box
      "(Finite 0, Finite 0, Finite 0, Finite 0)" "''%PDF''" 1 2 "[]" "Finite 595" "Finite 842"]
  from t have same:
    "sign_pdf_file box_probe_env sample_fs ''in.pdf'' ''out.pdf'' ''cert.p12'' (Some ''pw'') True
       (- 1) (Finite 0, Finite 0, Finite 0, Finite 0) =
     sign_pdf_file box_probe_env sample_fs ''in.pdf'' ''out.pdf'' ''cert.p12'' (Some ''pw'') True
       (- 1) default_box"
    by simp
  from t probe_read_file probe_load_pkcs12 probe_page_size
  have "sign_pdf_file box_probe_env sample_fs ''in.pdf'' ''out.pdf'' ''cert.p12'' (Some ''pw'')
          True (- 1) default_box =
        (case cms_sign box_probe_env ''%PDF''
                (sign_all_signature_dict (utc_now box_probe_env) True (- 1)
                   (compute_bottom_right_box (Finite 595) (Finite 842)
                      (Finite 160) (Finite 84) (Finite 24) (Finite 24))
                   default_reason default_location default_contact)
                1 2 [] ''sha256'' of
           Inl err \<Rightarrow> Inl err
         | Inr signed_bytes \<Rightarrow> write_file sample_fs ''out.pdf'' (''%PDF'' @ signed_bytes))"
    by blast
  then have first:
    "sign_pdf_file box_probe_env sample_fs ''in.pdf'' ''out.pdf'' ''cert.p12'' (Some ''pw'') True
       (- 1) default_box =
     Inr (sample_fs\<lparr>files := (files sample_fs)(''out.pdf'' \<mapsto> ''%PDF%%EOF'')\<rparr>)"
    by (simp only: sample_a4_box probe_signer_accepts sum.case append.simps probe_write)
  show ?thesis
    by (simp only: probe_read_file probe_load_pkcs12 probe_page_size sample_a4_box same first
          simp_thms)
qed

text \<open>
  Claim C9. With \<open>visible\<close> false, \<^verbatim>\<open>sign_pdf_bytes\<close> returns the same for any two page indices
  and any two boxes (given or absent), everything else being equal.
\<close>

theorem sign_pdf_bytes_invisible_ignores_page_and_box:
  "sign_pdf_bytes e pdf_bytes key cert ca_list False p1 b1 reason location contact =
   sign_pdf_bytes e pdf_bytes key cert ca_list False p2 b2 reason location contact"
  by (simp add: sign_pdf_bytes_def signature_dict_def)

lemma sign_pdf_bytes_appends:
  assumes "sign_pdf_bytes e pdf_bytes key cert ca_list visible page_index br_box reason location contact = Inr out"
  shows "\<exists>dct signed_append. cms_sign e pdf_bytes dct key cert ca_list ''sha256'' = Inr signed_append \<and>
           out = pdf_bytes @ signed_append"
  using assms unfolding sign_pdf_bytes_def
  by (auto split: sum.splits if_splits option.splits prod.splits)

lemma write_file_content:
  "write_file fs path data = Inr fs' \<Longrightarrow> files fs' path = Some data"
  by (auto simp: write_file_def split: if_splits)

lemma sign_pdf_file_appends:
  assumes "sign_pdf_file e fs input_path output_path p12_path p12_password visible page_index bx = Inr fs'"
  shows "\<exists>pdf_bytes dct key cert ca signed_bytes.
           files fs input_path = Some pdf_bytes \<and>
           cms_sign e pdf_bytes dct key cert ca ''sha256'' = Inr signed_bytes \<and>
           files fs' output_path = Some (pdf_bytes @ signed_bytes)"
  using assms unfolding sign_pdf_file_def read_file_def
  by (auto split: sum.splits if_splits option.splits prod.splits dest!: write_file_content; blast)

text \<open>
  Claim C1. Whenever \<^verbatim>\<open>sign_pdf_bytes\<close> returns, its result is the input bytes followed by the
  bytes the CMS signer returned, so its first \<open>len(input)\<close> bytes are the input; whenever
  \<^verbatim>\<open>sign_pdf_file\<close> returns, the file at the output path holds the bytes of the input file
  followed by the bytes the CMS signer returned.
\<close>

theorem signed_output_extends_input:
  "(sign_pdf_bytes e pdf_bytes key cert ca_list visible page_index br_box reason location contact
      = Inr out \<longrightarrow>
    take (length pdf_bytes) out = pdf_bytes \<and>
    (\<exists>dct signed_append.
       cms_sign e pdf_bytes dct key cert ca_list ''sha256'' = Inr signed_append \<and>
       out = pdf_bytes @ signed_append)) \<and>
   (sign_pdf_file e fs input_path output_path p12_path p12_password visible page_index bx
      = Inr fs' \<longrightarrow>
    (\<exists>input_bytes written dct k c ca signed_bytes.
       files fs input_path = Some input_bytes \<and>
       files fs' output_path = Some written \<and>
       take (length input_bytes) written = input_bytes \<and>
       cms_sign e input_bytes dct k c ca ''sha256'' = Inr signed_bytes \<and>
       written = input_bytes @ signed_bytes))"
proof (intro conjI impI)
  assume a: "sign_pdf_bytes e pdf_bytes key cert ca_list visible page_index br_box reason
               location contact = Inr out"
  from sign_pdf_bytes_appends [OF a]
  show "take (length pdf_bytes) out = pdf_bytes" by auto
  from sign_pdf_bytes_appends [OF a]
  show "\<exists>dct signed_append.
          cms_sign e pdf_bytes dct key cert ca_list ''sha256'' = Inr signed_append \<and>
          out = pdf_bytes @ signed_append" .
next
  assume b: "sign_pdf_file e fs input_path output_path p12_path p12_password visible
               page_index bx = Inr fs'"
  from sign_pdf_file_appends [OF b]
  obtain input_bytes dct k c ca signed_bytes where
    "files fs input_path = Some input_bytes"
    "cms_sign e input_bytes dct k c ca ''sha256'' = Inr signed_bytes"
    "files fs' output_path = Some (input_bytes @ signed_bytes)"
    by blast
  then show "\<exists>input_bytes written dct k c ca signed_bytes.
       files fs input_path = Some input_bytes \<and>
       files fs' output_path = Some written \<and>
       take (length input_bytes) written = input_bytes \<and>
       cms_sign e input_bytes dct k c ca ''sha256'' = Inr signed_bytes \<and>
       written = input_bytes @ signed_bytes"
    by (intro exI [of _ input_bytes] exI [of _ "input_bytes @ signed_bytes"] exI [of _ dct]
          exI [of _ k] exI [of _ c] exI [of _ ca] exI [of _ signed_bytes]) simp
qed

lemma sample_sign_pdf_bytes:
  "sign_pdf_bytes sample_env ''%PDF'' 1 2 [] True (- 1) None default_reason default_location
     default_contact = Inr ''%PDF%%EOF''"
  by (simp add: sign_pdf_bytes_def sample_env_def app_get_page_size_def getitem_def
        split: sum.splits prod.splits)

lemma sample_sign_pdf_file:
  "sign_pdf_file sample_env sample_fs ''in.pdf'' ''out.pdf'' ''cert.p12'' (Some ''pw'') True (- 1)
     default_box = Inr (sample_fs\<lparr>files := (files sample_fs)(''out.pdf'' \<mapsto> ''%PDF%%EOF'')\<rparr>)"
  by (simp add: sign_pdf_file_def sample_env_def sample_fs_def read_file_def write_file_def
        sign_all_load_pkcs12_def sign_all_get_page_size_def getitem_def or_empty_def
        split: sum.splits prod.splits)

text \<open>Both entry points do return on the sample inputs, with such an output.\<close>

theorem signed_output_extends_input_witness:
  "sign_pdf_bytes sample_env ''%PDF'' 1 2 [] True (- 1) None default_reason default_location
     default_contact = Inr ''%PDF%%EOF'' \<and>
   take (length ''%PDF'') ''%PDF%%EOF'' = ''%PDF'' \<and>
   sign_pdf_file sample_env sample_fs ''in.pdf'' ''out.pdf'' ''cert.p12'' (Some ''pw'') True (- 1)
     default_box = Inr (sample_fs\<lparr>files := (files sample_fs)(''out.pdf'' \<mapsto> ''%PDF%%EOF'')\<rparr>) \<and>
   (\<exists>written. files (sample_fs\<lparr>files := (files sample_fs)(''out.pdf'' \<mapsto> ''%PDF%%EOF'')\<rparr>)
        ''out.pdf'' = Some written \<and> take (length ''%PDF'') written = ''%PDF'')"
  using signed_output_extends_input [of sample_env "''%PDF''" 1 2 "[]" True "- 1" None
          default_reason default_location default_contact "''%PDF%%EOF''"
          sample_fs "''in.pdf''" "''out.pdf''" "''cert.p12''" "Some ''pw''" default_box
          "sample_fs\<lparr>files := (files sample_fs)(''out.pdf'' \<mapsto> ''%PDF%%EOF'')\<rparr>"]
        sample_sign_pdf_bytes sample_sign_pdf_file
  by simp

section \<open>Page resolution\<close>

lemma nth_int_last:
  assumes "pages \<noteq> []"
  shows "pages ! nat (int (length pages) - 1) = last pages"
proof -
  from assms have "0 < length pages" by simp
  then have "nat (int (length pages) - 1) = length pages - 1" by arith
  with assms show ?thesis by (simp add: last_conv_nth)
qed

lemma getitem_empty: "getitem [] i = Inl IndexError"
  by (simp add: getitem_def)

lemma getitem_nonneg:
  "0 \<le> i \<Longrightarrow>
   getitem pages i = (if i < int (length pages) then Inr (pages ! nat i) else Inl IndexError)"
  by (simp add: getitem_def)

text \<open>
  Claim C2, as amended. On a document of \<open>page_count\<close> pages, \<^verbatim>\<open>get_page_size\<close> of either entry
  point resolves every negative index to the last page, \<open>page_count - 1\<close>, and a non-negative
  index to itself; when the resolved index is outside \<open>[0, page_count)\<close>, which covers every
  index on a document without pages, it fails with \<^verbatim>\<open>IndexError\<close>.
\<close>

theorem page_resolution:
  assumes "pdf_reader e pdf_bytes = Inr pages"
    and "read_file fs pdf_path = Inr pdf_bytes"
  shows "(i < 0 \<and> pages \<noteq> [] \<longrightarrow>
            app_get_page_size e pdf_bytes i =
              Inr (mediabox_width (last pages), mediabox_height (last pages)) \<and>
            sign_all_get_page_size e fs pdf_path i =
              Inr (mediabox_width (last pages), mediabox_height (last pages))) \<and>
         (0 \<le> i \<and> i < int (length pages) \<longrightarrow>
            app_get_page_size e pdf_bytes i =
              Inr (mediabox_width (pages ! nat i), mediabox_height (pages ! nat i)) \<and>
            sign_all_get_page_size e fs pdf_path i =
              Inr (mediabox_width (pages ! nat i), mediabox_height (pages ! nat i))) \<and>
         (int (length pages) \<le> i \<or> pages = [] \<longrightarrow>
            app_get_page_size e pdf_bytes i = Inl IndexError \<and>
            sign_all_get_page_size e fs pdf_path i = Inl IndexError)"
  using assms
  by (auto simp: app_get_page_size_def sign_all_get_page_size_def getitem_empty getitem_nonneg
        nth_int_last)

text \<open>On the two-page sample: index \<open>-3\<close> gives the last page, \<open>0\<close> the first, \<open>5\<close> fails.\<close>

theorem page_resolution_witness:
  "pdf_reader sample_env ''%PDF'' = Inr [sample_page_a, sample_page_b] \<and>
   read_file sample_fs ''in.pdf'' = Inr ''%PDF'' \<and>
   app_get_page_size sample_env ''%PDF'' (- 3) = Inr (Finite 595, Finite 842) \<and>
   sign_all_get_page_size sample_env sample_fs ''in.pdf'' (- 3) = Inr (Finite 595, Finite 842) \<and>
   app_get_page_size sample_env ''%PDF'' 0 = Inr (Finite 612, Finite 792) \<and>
   sign_all_get_page_size sample_env sample_fs ''in.pdf'' 0 = Inr (Finite 612, Finite 792) \<and>
   app_get_page_size sample_env ''%PDF'' 5 = Inl IndexError \<and>
   sign_all_get_page_size sample_env sample_fs ''in.pdf'' 5 = Inl IndexError"
proof -
  have r: "pdf_reader sample_env ''%PDF'' = Inr [sample_page_a, sample_page_b]"
    by (simp add: sample_env_def)
  have f: "read_file sample_fs ''in.pdf'' = Inr ''%PDF''"
    by (simp add: sample_fs_def read_file_def)
  show ?thesis
    using r f page_resolution [OF r f, of "- 3"] page_resolution [OF r f, of 0]
      page_resolution [OF r f, of 5]
    by (simp add: sample_page_a_def sample_page_b_def)
qed

text \<open>
  Claim C2 as stated fails: on the two-page sample the index \<open>-2\<close> should resolve to
  \<open>2 - 1 + (-2 + 1) = 0\<close>, the first page (612 by 792); both entry points return the size of the
  last page (595 by 842).
\<close>

theorem negative_index_is_not_counted_from_the_end:
  "app_get_page_size sample_env ''%PDF'' (- 2) = Inr (Finite 595, Finite 842) \<and>
   sign_all_get_page_size sample_env sample_fs ''in.pdf'' (- 2) = Inr (Finite 595, Finite 842) \<and>
   (2::int) - 1 + (- 2 + 1) = 0 \<and>
   Inr (mediabox_width ([sample_page_a, sample_page_b] ! 0),
        mediabox_height ([sample_page_a, sample_page_b] ! 0)) \<noteq>
     app_get_page_size sample_env ''%PDF'' (- 2) \<and>
   Inr (mediabox_width ([sample_page_a, sample_page_b] ! 0),
        mediabox_height ([sample_page_a, sample_page_b] ! 0)) \<noteq>
     sign_all_get_page_size sample_env sample_fs ''in.pdf'' (- 2)"
  by (simp add: app_get_page_size_def sign_all_get_page_size_def sample_env_def sample_fs_def
        read_file_def getitem_def sample_page_a_def sample_page_b_def)

section \<open>The credential loaders\<close>

text \<open>The loader of \<^verbatim>\<open>app.py\<close> treats the empty password as no password.\<close>

lemma app_loader_passes_none:
  "load_pkcs12_from_bytes e p12 (Some []) = load_pkcs12_from_bytes e p12 None"
  by (simp add: load_pkcs12_from_bytes_def)

text \<open>
  Claim C7 at the empty password: the loader of \<^verbatim>\<open>app.py\<close> calls the decoder with
  \<^verbatim>\<open>None\<close>, the loader of \<^verbatim>\<open>sign_all.py\<close> calls it with the empty bytes, and raises
  \<^verbatim>\<open>AttributeError\<close> on an absent password.
\<close>

theorem empty_password_as_seen_by_decoder:
  "load_pkcs12_from_bytes password_probe_env ''p12'' (Some []) = Inr (None, (), []) \<and>
   load_pkcs12_from_bytes password_probe_env ''p12'' None = Inr (None, (), []) \<and>
   sign_all_load_pkcs12 password_probe_env sample_fs ''cert.p12'' (Some []) = Inr (Some [], (), []) \<and>
   sign_all_load_pkcs12 password_probe_env sample_fs ''cert.p12'' None = Inl AttributeError"
  by (simp add: load_pkcs12_from_bytes_def sign_all_load_pkcs12_def password_probe_env_def
        sample_fs_def read_file_def or_empty_def)

end
